theory Spec2Isabelle
  imports Complex_Main "HOL-Library.Char_ord" "HOL-Library.List_Lexorder"
begin

section \<open>Data model\<close>

text \<open>
  The entity of \<^verbatim>\<open>BuchService\<close>. The TypeScript interfaces \<^verbatim>\<open>Buch\<close> and
  \<^verbatim>\<open>BuchData\<close> (the latter adds the two timestamps) are structural, and a candidate
  taken from a request body can carry any of the properties, so one record serves both.
  Field \<open>uid\<close> is the property \<^verbatim>\<open>_id\<close> and \<open>vsn\<close> is \<^verbatim>\<open>__v\<close> (an identifier cannot
  start with an underscore); an optional property is an \<open>option\<close>, \<open>None\<close> standing for
  \<^verbatim>\<open>undefined\<close>. Timestamps are numbers (milliseconds). The version \<^verbatim>\<open>__v\<close> is the
  counter that the store starts at 0 and increments, so the record holds an integer
  there; a candidate with another kind of number in that place is outside the record.
\<close>

record Buch =
  uid :: "string option"
  vsn :: "int option"
  createdAt :: "nat option"
  updatedAt :: "nat option"
  titel :: string
  rating :: "int option"
  art :: "string option"
  verlag :: string
  preis :: real
  rabatt :: "real option"
  lieferbar :: "bool option"
  datum :: "string option"
  isbn :: string
  homepage :: "string option"
  schlagwoerter :: "string list option"
  autoren :: "(string \<times> string) list"

type_synonym BuchData = Buch

text \<open>The validation report: field name and message, \<open>None\<close> for \<^verbatim>\<open>undefined\<close>.\<close>

type_synonym ValidationErrorMsg = "(string \<times> string) list"

text \<open>
  The function \<^verbatim>\<open>validateBuch\<close> is imported from the entity module; it is a parameter
  of every operation that calls it.
\<close>

type_synonym validator = "Buch \<Rightarrow> ValidationErrorMsg option"

text \<open>
  The version a caller supplies is what \<^verbatim>\<open>Number.parseInt\<close> makes of the token: a
  JavaScript number that is an integer or an infinity (\<^verbatim>\<open>NaN\<close> is turned away before
  it is used, and \<open>-0\<close> is not told from 0).
\<close>

datatype jsnumber = Finite int | PosInfinity | NegInfinity

text \<open>
  The subclasses of \<^verbatim>\<open>BuchServiceError\<close>, with the constructor arguments the service
  and the request handler use: \<^verbatim>\<open>TitelExists(titel, id?)\<close>, \<^verbatim>\<open>IsbnExists(isbn, id?)\<close>,
  \<^verbatim>\<open>BuchNotExists(id)\<close>, \<^verbatim>\<open>VersionInvalid(version)\<close>, \<^verbatim>\<open>VersionOutdated(id, version)\<close>
  and \<^verbatim>\<open>BuchInvalid(msg)\<close>. An argument that the caller leaves out is \<open>None\<close>.
  The service returns these objects, it does not throw them.
\<close>

datatype BuchServiceError =
    BuchInvalid ValidationErrorMsg
  | TitelExists string (conflictId: "string option")
  | IsbnExists string "string option"
  | BuchNotExists "string option"
  | VersionInvalid "string option"
  | VersionOutdated string jsnumber

section \<open>The version token\<close>

text \<open>
  \<^verbatim>\<open>Number.parseInt(versionStr, 10)\<close> as ECMAScript defines it: leading white space is
  trimmed, one sign is read, the longest run of decimal digits is taken, and the result
  is \<^verbatim>\<open>NaN\<close> (here \<open>None\<close>) when that run is empty. Whatever follows the digits is
  ignored. A \<open>string\<close> holds code units below 256, so the white space is TAB, LF, VT,
  FF, CR, SP and NBSP. The result is the double nearest to the signed value of the
  digits.
\<close>

definition isStrWhiteSpaceChar :: "char \<Rightarrow> bool" where
  "isStrWhiteSpaceChar c = ((of_char c :: nat) \<in> {9, 10, 11, 12, 13, 32, 160})"

definition isDecimalDigit :: "char \<Rightarrow> bool" where
  "isDecimalDigit c = (48 \<le> (of_char c :: nat) \<and> (of_char c :: nat) \<le> 57)"

definition digitValue :: "char \<Rightarrow> int" where
  "digitValue c = int (of_char c) - 48"

definition decimalValue :: "string \<Rightarrow> int" where
  "decimalValue ds = foldl (\<lambda>a c. 10 * a + digitValue c) 0 ds"

text \<open>
  The double of an integer (IEEE 754 binary64, round to nearest, ties to even). Below
  \<open>2 ^ 53\<close> every integer is a double. A larger one keeps its 53 leading bits: with
  \<open>e\<close> bits cut off, it is rounded to a multiple of \<open>2 ^ e\<close>, to the even multiple
  when it lies half way; from \<open>2 ^ 1024\<close> on the result is infinite. (ECMAScript
  allows an implementation to read digits after the 20th as zeros; V8, on which the
  service runs, rounds the exact value.)
\<close>

fun bitLength :: "nat \<Rightarrow> nat" where
  "bitLength n = (if n = 0 then 0 else Suc (bitLength (n div 2)))"

declare bitLength.simps [simp del]

definition roundTiesToEven :: "nat \<Rightarrow> jsnumber" where
  "roundTiesToEven m =
     (if m < 2 ^ 53 then Finite (int m)
      else
        (let e = bitLength m - 53;
             q = m div 2 ^ e;
             r = m mod 2 ^ e;
             half = 2 ^ (e - 1);
             q' = (if half < r \<or> (r = half \<and> odd q) then q + 1 else q);
             v = q' * 2 ^ e
         in if 2 ^ 1024 \<le> v then PosInfinity else Finite (int v)))"

definition negate :: "jsnumber \<Rightarrow> jsnumber" where
  "negate x = (case x of Finite v \<Rightarrow> Finite (- v) | PosInfinity \<Rightarrow> NegInfinity
               | NegInfinity \<Rightarrow> PosInfinity)"

definition toDouble :: "int \<Rightarrow> jsnumber" where
  "toDouble m = (if 0 \<le> m then roundTiesToEven (nat m) else negate (roundTiesToEven (nat (- m))))"

definition parseInt :: "string \<Rightarrow> jsnumber option" where
  "parseInt inputString =
     (let S = dropWhile isStrWhiteSpaceChar inputString;
          sign = (if S \<noteq> [] \<and> hd S = CHR ''-'' then - 1 else 1);
          S' = (if S \<noteq> [] \<and> (hd S = CHR ''+'' \<or> hd S = CHR ''-'') then tl S else S);
          Z = takeWhile isDecimalDigit S'
      in if Z = [] then None else Some (toDouble (sign * decimalValue Z)))"

definition validateVersion :: "string option \<Rightarrow> BuchServiceError + jsnumber" where
  "validateVersion versionStr =
     (case versionStr of
        None \<Rightarrow> Inl (VersionInvalid versionStr)
      | Some s \<Rightarrow>
          (case parseInt s of
             None \<Rightarrow> Inl (VersionInvalid versionStr)
           | Some version \<Rightarrow> Inr version))"

text \<open>The comparison \<^verbatim>\<open>version < versionDb\<close> of a supplied version with a stored one.\<close>

fun lessThan_version :: "jsnumber \<Rightarrow> int \<Rightarrow> bool" where
  "lessThan_version (Finite v) w = (v < w)"
| "lessThan_version PosInfinity w = False"
| "lessThan_version NegInfinity w = True"




section \<open>The document store\<close>

text \<open>
  The service reaches the database through the Mongoose model \<^verbatim>\<open>BuchModel\<close>, whose
  schema, version handling and id generation live in the entity module, which is not
  among the sources. The store is the sequence of stored documents in natural order;
  every stored document has an id of its own.
\<close>

type_synonym store = "BuchData list"

text \<open>
  Modelled from the spec: the lookups of \<^verbatim>\<open>BuchModel\<close>, which the specification lists as
  "findById(id) -> Record?" and "findByField(field, value) -> Record?
  (existence/conflict lookups)". A lookup returns the first document in natural order
  that has the value; \<^verbatim>\<open>exists\<close> only says whether there is one.
\<close>

definition store_findById :: "store \<Rightarrow> string \<Rightarrow> BuchData option" where
  "store_findById db i = List.find (\<lambda>d. uid d = Some i) db"

definition store_findOneByTitel :: "store \<Rightarrow> string \<Rightarrow> BuchData option" where
  "store_findOneByTitel db t = List.find (\<lambda>d. titel d = t) db"

definition store_existsTitel :: "store \<Rightarrow> string \<Rightarrow> bool" where
  "store_existsTitel db t = list_ex (\<lambda>d. titel d = t) db"

definition store_existsIsbn :: "store \<Rightarrow> string \<Rightarrow> bool" where
  "store_existsIsbn db k = list_ex (\<lambda>d. isbn d = k) db"

text \<open>
  Modelled from the spec: insert persists the candidate "with version = 0,
  server-assigned id, server-assigned timestamps" and returns the id. The id the
  server assigns and the clock are arguments.
\<close>

definition store_save :: "store \<Rightarrow> string \<Rightarrow> nat \<Rightarrow> Buch \<Rightarrow> store \<times> BuchData" where
  "store_save db newId now auto =
     (let saved = auto\<lparr>uid := Some newId, vsn := Some 0,
                        createdAt := Some now, updatedAt := Some now\<rparr>
      in (db @ [saved], saved))"

text \<open>The version the service reads from a document: \<^verbatim>\<open>__v ?? 0\<close>.\<close>

definition versionDb :: "BuchData \<Rightarrow> int" where
  "versionDb autoDb = (case vsn autoDb of None \<Rightarrow> 0 | Some v \<Rightarrow> v)"

text \<open>
  Modelled from the spec: replace by id is a full replace by the candidate's fields,
  "store increments version to storedVersion + 1 as part of the atomic write", and it
  "returns updated document or none if id vanished". The creation timestamp stays, the
  update timestamp is the clock's.
\<close>

definition store_findByIdAndUpdate ::
    "store \<Rightarrow> nat \<Rightarrow> string option \<Rightarrow> Buch \<Rightarrow> store \<times> BuchData option" where
  "store_findByIdAndUpdate db now i auto =
     (case i of
        None \<Rightarrow> (db, None)
      | Some k \<Rightarrow>
          (case store_findById db k of
             None \<Rightarrow> (db, None)
           | Some old \<Rightarrow>
               (let updated = auto\<lparr>uid := Some k, vsn := Some (versionDb old + 1),
                                    createdAt := createdAt old, updatedAt := Some now\<rparr>
                in (map (\<lambda>d. if uid d = Some k then updated else d) db, Some updated))))"

text \<open>
  Modelled from the spec: delete by id removes the document with that id and returns
  it, or returns nothing when there is none ("deleteById(id) -> bool").
\<close>

definition store_findByIdAndDelete :: "store \<Rightarrow> string \<Rightarrow> store \<times> BuchData option" where
  "store_findByIdAndDelete db i =
     (case store_findById db i of
        None \<Rightarrow> (db, None)
      | Some d \<Rightarrow> (filter (\<lambda>x. uid x \<noteq> Some i) db, Some d))"

text \<open>The store's invariant: ids are present and identify one document.\<close>

definition store_ok :: "store \<Rightarrow> bool" where
  "store_ok db = ((\<forall>d \<in> set db. uid d \<noteq> None) \<and> distinct (map uid db))"

section \<open>BuchService: checks of an update\<close>

definition checkTitelExists :: "store \<Rightarrow> Buch \<Rightarrow> BuchServiceError option" where
  "checkTitelExists db auto =
     (case store_findOneByTitel db (titel auto) of
        Some result \<Rightarrow> Some (TitelExists (titel auto) (uid result))
      | None \<Rightarrow> None)"

definition checkIdAndVersion ::
    "store \<Rightarrow> string \<Rightarrow> jsnumber \<Rightarrow> BuchServiceError option" where
  "checkIdAndVersion db i version =
     (case store_findById db i of
        None \<Rightarrow> Some (BuchNotExists (Some i))
      | Some autoDb \<Rightarrow>
          if lessThan_version version (versionDb autoDb)
          then Some (VersionOutdated i version) else None)"

definition validateUpdate ::
    "validator \<Rightarrow> store \<Rightarrow> Buch \<Rightarrow> string option \<Rightarrow> BuchServiceError option" where
  "validateUpdate validateBuch db auto versionStr =
     (case validateVersion versionStr of
        Inl err \<Rightarrow> Some err
      | Inr version \<Rightarrow>
          (case validateBuch auto of
             Some validationMsg \<Rightarrow> Some (BuchInvalid validationMsg)
           | None \<Rightarrow>
               (let resultTitel = checkTitelExists db auto
                in if resultTitel \<noteq> None \<and> conflictId (the resultTitel) \<noteq> uid auto
                   then resultTitel
                   else (case uid auto of
                           None \<Rightarrow> Some (BuchNotExists None)
                         | Some i \<Rightarrow> checkIdAndVersion db i version))))"

section \<open>BuchService: update\<close>

text \<open>
  The part of \<^verbatim>\<open>update\<close> after the checks: the write and the version read back from the
  updated document (\<^verbatim>\<open>updated.__v as number\<close>; the store always sets it).
\<close>

definition update_write :: "store \<Rightarrow> nat \<Rightarrow> Buch \<Rightarrow> store \<times> (BuchServiceError + int)" where
  "update_write db now auto =
     (case store_findByIdAndUpdate db now (uid auto) auto of
        (db', None) \<Rightarrow> (db', Inl (BuchNotExists (uid auto)))
      | (db', Some updated) \<Rightarrow> (db', Inr (the (vsn updated))))"

text \<open>
  \<^verbatim>\<open>update\<close> awaits the checks and then the write. Between the two another request
  can change the store; \<open>other\<close> is that change (the identity when nothing interferes).
\<close>

definition update_interleaved ::
    "validator \<Rightarrow> nat \<Rightarrow> (store \<Rightarrow> store) \<Rightarrow> store \<Rightarrow> Buch \<Rightarrow> string option
       \<Rightarrow> store \<times> (BuchServiceError + int)" where
  "update_interleaved validateBuch now other db auto versionStr =
     (case validateUpdate validateBuch db auto versionStr of
        Some validateResult \<Rightarrow> (db, Inl validateResult)
      | None \<Rightarrow> update_write (other db) now auto)"

definition update ::
    "validator \<Rightarrow> nat \<Rightarrow> store \<Rightarrow> Buch \<Rightarrow> string option
       \<Rightarrow> store \<times> (BuchServiceError + int)" where
  "update validateBuch now db auto versionStr =
     update_interleaved validateBuch now (\<lambda>s. s) db auto versionStr"

section \<open>GraphQL resolver: updateBuch\<close>


section \<open>BuchService: create\<close>

text \<open>
  \<^verbatim>\<open>BuchModel.exists\<close> answers yes or no, so the errors of \<^verbatim>\<open>validateCreate\<close> are
  built from the candidate's own value alone: \<^verbatim>\<open>new TitelExists(titel)\<close>,
  \<^verbatim>\<open>new IsbnExists(isbn)\<close>.
\<close>

definition validateCreate :: "validator \<Rightarrow> store \<Rightarrow> Buch \<Rightarrow> BuchServiceError option" where
  "validateCreate validateBuch db auto =
     (case validateBuch auto of
        Some msg \<Rightarrow> Some (BuchInvalid msg)
      | None \<Rightarrow>
          if store_existsTitel db (titel auto) then Some (TitelExists (titel auto) None)
          else if store_existsIsbn db (isbn auto) then Some (IsbnExists (isbn auto) None)
          else None)"

text \<open>
  What an awaited call can do besides returning: reject (throw). The errors of the
  service are returned values and sit inside \<open>Returns\<close>.
\<close>

datatype 'a outcome = Returns 'a | Throws string

record SendMailOptions =
  mail_from :: string
  mail_to :: string
  mail_subject :: string
  mail_html :: string

text \<open>
  The surroundings of \<^verbatim>\<open>sendmail\<close>: the constants \<^verbatim>\<open>cloud\<close> and \<^verbatim>\<open>mailConfig.host\<close>
  of the shared module, and what loading \<^verbatim>\<open>nodemailer\<close> and sending the mail does
  with the message (it resolves or it rejects with an error). Of the log, the error
  entries are kept.
\<close>

record MailEnv =
  cloud :: "string option"
  mailHost :: string
  sendMail :: "SendMailOptions \<Rightarrow> unit outcome"

datatype logEntry = LogError string string

definition sendmail :: "MailEnv \<Rightarrow> Buch \<Rightarrow> logEntry list \<times> unit outcome" where
  "sendmail env auto =
     (if cloud env \<noteq> None \<or> mailHost env = ''skip'' then ([], Returns ())
      else
        (let data = \<lparr>mail_from = ''\"Joe Doe\" <Joe.Doe@acme.com>'',
                     mail_to = ''\"Foo Bar\" <Foo.Bar@acme.com>'',
                     mail_subject = ''Neues Buch '' @
                        (case uid auto of None \<Rightarrow> ''undefined'' | Some i \<Rightarrow> i),
                     mail_html = ''Das Buch mit dem Titel <strong>'' @ titel auto @
                        ''</strong> ist angelegt''\<rparr>
         in case sendMail env data of
              Returns _ \<Rightarrow> ([], Returns ())
            | Throws err \<Rightarrow>
                ([LogError ''BuchService.create(): Fehler beim Verschicken der Email'' err],
                 Returns ())))"

definition create ::
    "validator \<Rightarrow> MailEnv \<Rightarrow> store \<Rightarrow> string \<Rightarrow> nat \<Rightarrow> Buch
       \<Rightarrow> store \<times> logEntry list \<times> (BuchServiceError + string) outcome" where
  "create validateBuch env db newId now auto =
     (case validateCreate validateBuch db auto of
        Some validateResult \<Rightarrow> (db, [], Returns (Inl validateResult))
      | None \<Rightarrow>
          (case store_save db newId now auto of
             (db', saved) \<Rightarrow>
               (case sendmail env auto of
                  (logged, Throws err) \<Rightarrow> (db', logged, Throws err)
                | (logged, Returns _) \<Rightarrow> (db', logged, Returns (Inr (the (uid saved)))))))"

section \<open>BuchService: delete\<close>

definition delete :: "store \<Rightarrow> string \<Rightarrow> store \<times> bool" where
  "delete db i =
     (case store_findByIdAndDelete db i of (db', deleted) \<Rightarrow> (db', deleted \<noteq> None))"

section \<open>BuchService: findById and find\<close>

definition deleteTimestamps :: "BuchData \<Rightarrow> BuchData" where
  "deleteTimestamps auto = auto\<lparr>createdAt := None, updatedAt := None\<rparr>"

definition findById :: "store \<Rightarrow> string \<Rightarrow> BuchData option" where
  "findById db i =
     (case store_findById db i of
        None \<Rightarrow> None
      | Some auto \<Rightarrow> Some (deleteTimestamps auto))"

text \<open>
  The query object. A property is absent (\<open>None\<close>), a string, or something else (an
  array or an object, which Express can also deliver). The named properties are
  \<^verbatim>\<open>titel\<close>, \<^verbatim>\<open>javascript\<close> and \<^verbatim>\<open>typescript\<close>; \<open>q_rest\<close> holds every other property.
\<close>

datatype qvalue = QString string | QOther

record FilterQuery =
  q_titel :: "qvalue option"
  q_javascript :: "qvalue option"
  q_typescript :: "qvalue option"
  q_rest :: "(string \<times> qvalue) list"

text \<open>
  The regular expression \<^verbatim>\<open>new RegExp(titel, 'iu')\<close> and its use by the store. A
  pattern of printable ASCII characters none of which is a syntax character stands for
  its own text, and with the flag \<^verbatim>\<open>i\<close> a letter matches in either case: on an ASCII
  text the test is whether the pattern occurs at some position, letter case apart. A
  pattern that has an opening parenthesis and otherwise such characters only is an
  unterminated group: the constructor throws a \<^verbatim>\<open>SyntaxError\<close>.
\<close>

definition isAscii :: "char \<Rightarrow> bool" where
  "isAscii c = ((of_char c :: nat) < 128)"

definition isSyntaxCharacter :: "char \<Rightarrow> bool" where
  "isSyntaxCharacter c = (c \<in> set ''^$.*+?()[]{}|'' \<or> c = CHR 0x5C)"

definition isPlainCharacter :: "char \<Rightarrow> bool" where
  "isPlainCharacter c =
     (32 \<le> (of_char c :: nat) \<and> (of_char c :: nat) \<le> 126 \<and> \<not> isSyntaxCharacter c)"

definition isPlainPattern :: "string \<Rightarrow> bool" where
  "isPlainPattern p = list_all isPlainCharacter p"

definition isUnterminatedGroup :: "string \<Rightarrow> bool" where
  "isUnterminatedGroup p =
     (CHR ''('' \<in> set p \<and> list_all (\<lambda>c. c = CHR ''('' \<or> isPlainCharacter c) p)"

definition toLowerAscii :: "char \<Rightarrow> char" where
  "toLowerAscii c =
     (if 65 \<le> (of_char c :: nat) \<and> (of_char c :: nat) \<le> 90 then char_of (of_char c + (32 :: nat))
      else c)"

fun isPrefixIgnoreCase :: "string \<Rightarrow> string \<Rightarrow> bool" where
  "isPrefixIgnoreCase [] s = True"
| "isPrefixIgnoreCase (p # ps) [] = False"
| "isPrefixIgnoreCase (p # ps) (c # cs) =
     (toLowerAscii p = toLowerAscii c \<and> isPrefixIgnoreCase ps cs)"

fun containsIgnoreCase :: "string \<Rightarrow> string \<Rightarrow> bool" where
  "containsIgnoreCase p [] = (p = [])"
| "containsIgnoreCase p (c # cs) =
     (isPrefixIgnoreCase p (c # cs) \<or> containsIgnoreCase p cs)"

text \<open>
  What lies outside these rules is a parameter of the search: \<open>RegExp_beyond p\<close> is
  the regular expression of any other pattern (\<open>None\<close> when the constructor throws,
  otherwise its test on a title), \<open>test_beyond p s\<close> is the test of a plain pattern on
  a title that is not ASCII, and \<open>matchesRest rest d\<close> is the store's verdict on
  document \<open>d\<close> for the remaining properties of the query.
\<close>

record Engine =
  RegExp_beyond :: "string \<Rightarrow> (string \<Rightarrow> bool) option"
  test_beyond :: "string \<Rightarrow> string \<Rightarrow> bool"
  matchesRest :: "(string \<times> qvalue) list \<Rightarrow> BuchData \<Rightarrow> bool"

definition RegExp_iu :: "Engine \<Rightarrow> string \<Rightarrow> (string \<Rightarrow> bool) option" where
  "RegExp_iu engine p =
     (if isPlainPattern p
      then Some (\<lambda>s. if list_all isAscii s then containsIgnoreCase p s
                      else test_beyond engine p s)
      else if isUnterminatedGroup p then None
      else RegExp_beyond engine p)"

text \<open>
  The criteria \<^verbatim>\<open>find\<close> hands to the store besides the one on \<^verbatim>\<open>titel\<close>: the
  array \<^verbatim>\<open>schlagwoerter\<close> built from the two flags (the property is deleted when the
  array is empty) and the rest properties.
\<close>

definition dbQuery_schlagwoerter :: "FilterQuery \<Rightarrow> string list option" where
  "dbQuery_schlagwoerter q =
     (let schlagwoerter =
            (if q_javascript q = Some (QString ''true'') then [''JAVASCRIPT''] else []) @
            (if q_typescript q = Some (QString ''true'') then [''TYPESCRIPT''] else [])
      in if schlagwoerter = [] then None else Some schlagwoerter)"

definition dbQuery_rest :: "FilterQuery \<Rightarrow> (string \<times> qvalue) list" where
  "dbQuery_rest q = filter (\<lambda>kv. fst kv \<noteq> ''schlagwoerter'') (q_rest q)"

text \<open>
  How the store reads these criteria. The array is a plain value of the query (no
  operator), which the database compares with the document's array as a whole: the
  same tags in the same order. With no remaining properties every document passes.
\<close>

definition store_matchesSchlagwoerter :: "string list option \<Rightarrow> BuchData \<Rightarrow> bool" where
  "store_matchesSchlagwoerter criterion d =
     (case criterion of None \<Rightarrow> True | Some tags \<Rightarrow> schlagwoerter d = Some tags)"

definition store_matchesRest :: "Engine \<Rightarrow> (string \<times> qvalue) list \<Rightarrow> BuchData \<Rightarrow> bool" where
  "store_matchesRest engine rest d = (rest = [] \<or> matchesRest engine rest d)"

definition find_query :: "Engine \<Rightarrow> store \<Rightarrow> FilterQuery option \<Rightarrow> BuchData list outcome" where
  "find_query engine db query =
     (if query = None \<or>
         (q_titel (the query) = None \<and> q_javascript (the query) = None \<and>
          q_typescript (the query) = None \<and> q_rest (the query) = [])
      then Returns (map deleteTimestamps (sort_key titel db))
      else
        (let q = the query;
             dbQuery_titel =
               (case q_titel q of
                  Some (QString t) \<Rightarrow> if length t < 10 then Some t else None
                | _ \<Rightarrow> None)
         in case dbQuery_titel of
              None \<Rightarrow>
                Returns (map deleteTimestamps
                  (filter (\<lambda>d. store_matchesSchlagwoerter (dbQuery_schlagwoerter q) d \<and>
                             store_matchesRest engine (dbQuery_rest q) d) db))
            | Some t \<Rightarrow>
                (case RegExp_iu engine t of
                   None \<Rightarrow> Throws ''SyntaxError''
                 | Some re \<Rightarrow>
                     Returns (map deleteTimestamps
                       (filter (\<lambda>d. re (titel d) \<and>
                          store_matchesSchlagwoerter (dbQuery_schlagwoerter q) d \<and>
                          store_matchesRest engine (dbQuery_rest q) d) db)))))"



text \<open>
  The engine of the examples. The examples never consult it: their patterns and titles
  are decided by the rules above and their queries have no remaining properties.
\<close>

definition literalEngine :: Engine where
  "literalEngine =
     \<lparr>RegExp_beyond = (\<lambda>p. None), test_beyond = (\<lambda>p s. False),
      matchesRest = (\<lambda>rest d. False)\<rparr>"

section \<open>Example data\<close>

text \<open>Three documents of the test data and a candidate for a new one.\<close>

definition buchAlpha :: BuchData where
  "buchAlpha =
     \<lparr>uid = Some ''00000000-0000-0000-0000-000000000001'', vsn = Some 0,
      createdAt = Some 1, updatedAt = Some 1, titel = ''Alpha'', rating = Some 4,
      art = Some ''DRUCKAUSGABE'', verlag = ''FOO_PRODUZENT'', preis = 11.1,
      rabatt = Some 0.011, lieferbar = Some True, datum = Some ''2020-02-01'',
      isbn = ''978-3897225831'', homepage = Some ''https://acme.at/'',
      schlagwoerter = Some [''JAVASCRIPT''],
      autoren = [(''Alpha'', ''Adriana''), (''Alpha'', ''Alfred'')]\<rparr>"

definition buchBeta :: BuchData where
  "buchBeta =
     \<lparr>uid = Some ''00000000-0000-0000-0000-000000000002'', vsn = Some 0,
      createdAt = Some 2, updatedAt = Some 2, titel = ''Beta'', rating = Some 2,
      art = Some ''KINDLE'', verlag = ''BAR_PRODUZENT'', preis = 22.2,
      rabatt = Some 0.022, lieferbar = Some True, datum = Some ''2020-02-02'',
      isbn = ''978-3827315526'', homepage = Some ''https://acme.biz/'',
      schlagwoerter = Some [''TYPESCRIPT''],
      autoren = [(''Beta'', ''Brunhilde'')]\<rparr>"


definition testdaten :: store where
  "testdaten = [buchAlpha, buchBeta]"

definition neuesBuch :: Buch where
  "neuesBuch =
     \<lparr>uid = None, vsn = None, createdAt = None, updatedAt = None, titel = ''Neu'',
      rating = Some 1, art = Some ''DRUCKAUSGABE'', verlag = ''FOO_PRODUZENT'',
      preis = 99.99, rabatt = Some 0.099, lieferbar = Some True,
      datum = Some ''2016-02-28'', isbn = ''0-0070-0644-6'',
      homepage = Some ''https://test.de/'', schlagwoerter = Some [''JAVASCRIPT''],
      autoren = [(''Test'', ''Theo'')]\<rparr>"

text \<open>A validator that accepts everything and one that rejects everything.\<close>

definition acceptAll :: validator where
  "acceptAll auto = None"

definition rejectAll :: validator where
  "rejectAll auto = Some [(''titel'', ''Ein Buchtitel muss mit einem Buchstaben beginnen.'')]"

text \<open>A configuration that skips the mail, and one whose mail server refuses.\<close>

definition mailSkip :: MailEnv where
  "mailSkip = \<lparr>cloud = None, mailHost = ''skip'', sendMail = (\<lambda>data. Returns ())\<rparr>"

definition mailRefused :: MailEnv where
  "mailRefused =
     \<lparr>cloud = None, mailHost = ''localhost'', sendMail = (\<lambda>data. Throws ''ECONNREFUSED'')\<rparr>"

section \<open>Facts about the version token\<close>

lemma sign_not_ws: "\<not> isStrWhiteSpaceChar CHR ''+''" "\<not> isStrWhiteSpaceChar CHR ''-''"
  by (simp_all add: isStrWhiteSpaceChar_def)

lemma digit_not_ws: "isDecimalDigit c \<Longrightarrow> \<not> isStrWhiteSpaceChar c"
  by (auto simp add: isDecimalDigit_def isStrWhiteSpaceChar_def)

lemma digit_not_sign: "isDecimalDigit c \<Longrightarrow> c \<noteq> CHR ''+'' \<and> c \<noteq> CHR ''-''"
  by (auto simp add: isDecimalDigit_def)

lemma dropWhile_ws_prefix:
  "list_all isStrWhiteSpaceChar ws \<Longrightarrow> x = [] \<or> \<not> isStrWhiteSpaceChar (hd x)
    \<Longrightarrow> dropWhile isStrWhiteSpaceChar (ws @ x) = x"
  by (induction ws) (auto simp: dropWhile_eq_self_iff)

lemma takeWhile_digits_prefix:
  "list_all isDecimalDigit ds \<Longrightarrow> r = [] \<or> \<not> isDecimalDigit (hd r)
    \<Longrightarrow> takeWhile isDecimalDigit (ds @ r) = ds"
  by (induction ds) (auto simp: takeWhile_eq_Nil_iff)

text \<open>The number of bits of a natural number: \<open>k + 1\<close> between \<open>2 ^ k\<close> and \<open>2 ^ (k + 1)\<close>.\<close>

lemma bitLength_le: "n < 2 ^ k \<Longrightarrow> bitLength n \<le> k"
proof (induction k arbitrary: n)
  case 0
  then show ?case by (simp add: bitLength.simps)
next
  case (Suc k)
  show ?case
  proof (cases "n = 0")
    case True
    then show ?thesis by (simp add: bitLength.simps)
  next
    case False
    from Suc.prems have "n div 2 < 2 ^ k" by simp
    then have "bitLength (n div 2) \<le> k" by (rule Suc.IH)
    with False show ?thesis by (subst bitLength.simps) simp
  qed
qed

lemma bitLength_gt: "2 ^ k \<le> n \<Longrightarrow> k < bitLength n"
proof (induction k arbitrary: n)
  case 0
  then show ?case by (subst bitLength.simps) simp
next
  case (Suc k)
  then have "2 ^ k \<le> n div 2" by simp
  then have "k < bitLength (n div 2)" by (rule Suc.IH)
  moreover have "(0::nat) < 2 ^ Suc k" by simp
  with Suc.prems have "n \<noteq> 0" by linarith
  ultimately show ?case by (subst bitLength.simps) simp
qed

lemma bitLength_eq: "2 ^ k \<le> n \<Longrightarrow> n < 2 ^ Suc k \<Longrightarrow> bitLength n = Suc k"
  using bitLength_le[of n "Suc k"] bitLength_gt[of k n] by simp

text \<open>Up to \<open>2 ^ 53\<close> an integer is its own double; from \<open>2 ^ 1024\<close> the double is infinite.\<close>

lemma roundTiesToEven_exact: "m \<le> 2 ^ 53 \<Longrightarrow> roundTiesToEven m = Finite (int m)"
proof (cases "m < 2 ^ 53")
  case True
  then show ?thesis by (simp add: roundTiesToEven_def)
next
  case False
  assume "m \<le> 2 ^ 53"
  with False have m: "m = 2 ^ 53" by simp
  have b: "bitLength m = 54" unfolding m using bitLength_eq[of 53 "2 ^ 53"] by simp
  show ?thesis unfolding roundTiesToEven_def b by (simp add: Let_def m)
qed

lemma roundTiesToEven_overflow:
  assumes "2 ^ 1024 \<le> m"
  shows "roundTiesToEven m = PosInfinity"
proof -
  define e where "e = bitLength m - 53"
  have "1024 < bitLength m" using assms by (rule bitLength_gt)
  then have e: "972 \<le> e" "bitLength m = e + 53" by (simp_all add: e_def)
  have "2 ^ (e + 52) \<le> m"
  proof (rule ccontr)
    assume "\<not> 2 ^ (e + 52) \<le> m"
    then have "m < 2 ^ (e + 52)" by simp
    then have "bitLength m \<le> e + 52" by (rule bitLength_le)
    with e show False by simp
  qed
  then have "2 ^ 52 * 2 ^ e \<le> m" by (simp add: power_add mult.commute)
  then have q: "2 ^ 52 \<le> m div 2 ^ e"
    by (simp add: less_eq_div_iff_mult_less_eq)
  have "(2::nat) ^ 1024 = 2 ^ 52 * 2 ^ 972" by (simp add: power_add[symmetric])
  also have "\<dots> \<le> 2 ^ 52 * 2 ^ e"
    by (rule mult_le_mono2, rule power_increasing[OF e(1)]) simp
  also have "\<dots> \<le> (m div 2 ^ e) * 2 ^ e" using q by simp
  finally have v: "2 ^ 1024 \<le> (m div 2 ^ e) * 2 ^ e" .
  then have v': "2 ^ 1024 \<le> (m div 2 ^ e + 1) * 2 ^ e"
    by (metis add_mult_distrib le_add1 le_trans)
  have big: "\<not> m < 2 ^ 53"
  proof -
    have "(2::nat) ^ 53 \<le> 2 ^ 1024" by (rule power_increasing) simp_all
    with assms show ?thesis by simp
  qed
  show ?thesis
    using v v' big unfolding roundTiesToEven_def e_def[symmetric] by (simp add: Let_def)
qed

lemma toDouble_exact: "\<bar>m\<bar> \<le> 2 ^ 53 \<Longrightarrow> toDouble m = Finite m"
proof (cases "0 \<le> m")
  case True
  assume "\<bar>m\<bar> \<le> 2 ^ 53"
  with True have "nat m \<le> 2 ^ 53" by (simp add: nat_le_iff)
  from roundTiesToEven_exact[OF this] True show ?thesis by (simp add: toDouble_def)
next
  case False
  assume "\<bar>m\<bar> \<le> 2 ^ 53"
  with False have "nat (- m) \<le> 2 ^ 53" by (simp add: nat_le_iff)
  from roundTiesToEven_exact[OF this] False show ?thesis
    by (simp add: toDouble_def negate_def)
qed

lemma toDouble_overflow:
  "2 ^ 1024 \<le> m \<Longrightarrow> toDouble m = PosInfinity"
  "2 ^ 1024 \<le> m \<Longrightarrow> toDouble (- m) = NegInfinity"
proof -
  assume a: "2 ^ 1024 \<le> m"
  have pos: "(0::int) < 2 ^ 1024" by simp
  from a have "(2::nat) ^ 1024 \<le> nat m"
    by (simp add: le_nat_iff)
  then have r: "roundTiesToEven (nat m) = PosInfinity" by (rule roundTiesToEven_overflow)
  from a pos have s: "0 \<le> m" "\<not> 0 \<le> - m" by linarith+
  show "toDouble m = PosInfinity" using r s by (simp add: toDouble_def)
  show "toDouble (- m) = NegInfinity" using r s by (simp add: toDouble_def negate_def)
qed

text \<open>A token that, after white space and a sign, starts with digits: the digits count.\<close>

lemma parseInt_numeric:
  assumes "list_all isStrWhiteSpaceChar ws" and "sg \<in> {[], ''+'', ''-''}"
    and "ds \<noteq> []" and "list_all isDecimalDigit ds" and "r = [] \<or> \<not> isDecimalDigit (hd r)"
  shows "parseInt (ws @ sg @ ds @ r) =
    Some (toDouble ((if sg = ''-'' then - 1 else 1) * decimalValue ds))"
proof -
  obtain d ds' where ds: "ds = d # ds'" using assms(3) by (cases ds) auto
  have d: "isDecimalDigit d" using assms(4) ds by simp
  have tw: "takeWhile isDecimalDigit (ds @ r) = ds"
    by (rule takeWhile_digits_prefix[OF assms(4,5)])
  have "sg @ ds @ r = [] \<or> \<not> isStrWhiteSpaceChar (hd (sg @ ds @ r))"
    using assms(2) d ds by (auto simp: sign_not_ws digit_not_ws)
  then have dw: "dropWhile isStrWhiteSpaceChar (ws @ sg @ ds @ r) = sg @ ds @ r"
    by (rule dropWhile_ws_prefix[OF assms(1)])
  show ?thesis
    using assms(2) tw d digit_not_sign[OF d] unfolding parseInt_def dw
    by (auto simp: Let_def ds)
qed

text \<open>A token with no digit in that place is not a number.\<close>

lemma parseInt_not_numeric:
  assumes "list_all isStrWhiteSpaceChar ws" and "sg \<in> {[], ''+'', ''-''}"
    and "r = [] \<or> \<not> isDecimalDigit (hd r)"
    and "sg = [] \<and> r \<noteq> [] \<longrightarrow>
           \<not> isStrWhiteSpaceChar (hd r) \<and> hd r \<noteq> CHR ''+'' \<and> hd r \<noteq> CHR ''-''"
  shows "parseInt (ws @ sg @ r) = None"
proof -
  have tw: "takeWhile isDecimalDigit r = []"
    using assms(3) by (auto simp: takeWhile_eq_Nil_iff)
  have "sg @ r = [] \<or> \<not> isStrWhiteSpaceChar (hd (sg @ r))"
    using assms(2,4) by (auto simp: sign_not_ws)
  then have dw: "dropWhile isStrWhiteSpaceChar (ws @ sg @ r) = sg @ r"
    by (rule dropWhile_ws_prefix[OF assms(1)])
  show ?thesis
    using assms(2,4) tw unfolding parseInt_def dw
    by (auto simp: Let_def)
qed

lemma decimalValue_snoc: "decimalValue (xs @ [c]) = 10 * decimalValue xs + digitValue c"
  by (simp add: decimalValue_def)

lemma decimalValue_zeros:
  "decimalValue (ds @ replicate k CHR ''0'') = decimalValue ds * 10 ^ k"
proof (induction k)
  case 0
  show ?case by simp
next
  case (Suc k)
  have "ds @ replicate (Suc k) CHR ''0'' = (ds @ replicate k CHR ''0'') @ [CHR ''0'']"
    by (simp add: replicate_append_same)
  then have "decimalValue (ds @ replicate (Suc k) CHR ''0'') =
      10 * decimalValue (ds @ replicate k CHR ''0'') + digitValue CHR ''0''"
    by (simp only: decimalValue_snoc)
  with Suc show ?case by (simp add: digitValue_def)
qed

lemma decimalValue_nonneg: "list_all isDecimalDigit ds \<Longrightarrow> 0 \<le> decimalValue ds"
proof (induction ds rule: rev_induct)
  case Nil
  show ?case by (simp add: decimalValue_def)
next
  case (snoc c ds)
  then have "0 \<le> decimalValue ds" "0 \<le> digitValue c"
    by (simp_all add: isDecimalDigit_def digitValue_def)
  then show ?case by (simp add: decimalValue_snoc)
qed







lemma validateUpdate_VersionInvalid:
  "validateVersion versionStr = Inl err \<Longrightarrow>
     validateUpdate validateBuch db auto versionStr = Some err"
  by (simp add: validateUpdate_def)

text \<open>
  C1. A version token that is undefined, or that has no decimal digit after its leading
  white space and its optional sign, makes \<open>update\<close> return \<open>VersionInvalid\<close> with that
  token, whatever the validator says about the candidate and whatever the store holds
  (the store is left as it was). For any other token the guard returns the number that
  \<^verbatim>\<open>Number.parseInt\<close> reads: the double nearest to the integer written by the leading
  digits, negated when the sign is a minus. That is the integer itself up to \<open>2 ^ 53\<close>
  and an infinity from \<open>2 ^ 1024\<close>; the text after the digits is ignored.
\<close>

theorem validateVersion_guard:
  assumes "list_all isStrWhiteSpaceChar ws" and "sg \<in> {[], ''+'', ''-''}"
    and "r = [] \<or> \<not> isDecimalDigit (hd r)"
  shows "update validateBuch now db auto None = (db, Inl (VersionInvalid None)) \<and>
    ((sg = [] \<and> r \<noteq> [] \<longrightarrow>
        \<not> isStrWhiteSpaceChar (hd r) \<and> hd r \<noteq> CHR ''+'' \<and> hd r \<noteq> CHR ''-'') \<longrightarrow>
      update validateBuch now db auto (Some (ws @ sg @ r)) =
        (db, Inl (VersionInvalid (Some (ws @ sg @ r))))) \<and>
    (ds \<noteq> [] \<and> list_all isDecimalDigit ds \<longrightarrow>
      validateVersion (Some (ws @ sg @ ds @ r)) =
        Inr (toDouble ((if sg = ''-'' then - 1 else 1) * decimalValue ds))) \<and>
    (ds \<noteq> [] \<and> list_all isDecimalDigit ds \<and> decimalValue ds \<le> 2 ^ 53 \<longrightarrow>
      validateVersion (Some (ws @ sg @ ds @ r)) =
        Inr (Finite ((if sg = ''-'' then - 1 else 1) * decimalValue ds))) \<and>
    (ds \<noteq> [] \<and> list_all isDecimalDigit ds \<and> 2 ^ 1024 \<le> decimalValue ds \<longrightarrow>
      validateVersion (Some (ws @ sg @ ds @ r)) =
        Inr (if sg = ''-'' then NegInfinity else PosInfinity))"
proof -
  have c1: "update validateBuch now db auto None = (db, Inl (VersionInvalid None))"
    by (simp add: update_def update_interleaved_def validateUpdate_def validateVersion_def)
  have c2: "(sg = [] \<and> r \<noteq> [] \<longrightarrow>
        \<not> isStrWhiteSpaceChar (hd r) \<and> hd r \<noteq> CHR ''+'' \<and> hd r \<noteq> CHR ''-'') \<longrightarrow>
      update validateBuch now db auto (Some (ws @ sg @ r)) =
        (db, Inl (VersionInvalid (Some (ws @ sg @ r))))"
  proof
    assume c: "sg = [] \<and> r \<noteq> [] \<longrightarrow>
      \<not> isStrWhiteSpaceChar (hd r) \<and> hd r \<noteq> CHR ''+'' \<and> hd r \<noteq> CHR ''-''"
    have "parseInt (ws @ sg @ r) = None"
      by (rule parseInt_not_numeric[OF assms(1,2,3) c])
    then have "validateVersion (Some (ws @ sg @ r)) =
        Inl (VersionInvalid (Some (ws @ sg @ r)))"
      by (simp add: validateVersion_def)
    then show "update validateBuch now db auto (Some (ws @ sg @ r)) =
        (db, Inl (VersionInvalid (Some (ws @ sg @ r))))"
      by (simp add: update_def update_interleaved_def validateUpdate_VersionInvalid)
  qed
  have num: "validateVersion (Some (ws @ sg @ ds @ r)) =
        Inr (toDouble ((if sg = ''-'' then - 1 else 1) * decimalValue ds))"
    if "ds \<noteq> [] \<and> list_all isDecimalDigit ds"
  proof -
    have "parseInt (ws @ sg @ ds @ r) =
        Some (toDouble ((if sg = ''-'' then - 1 else 1) * decimalValue ds))"
      using that parseInt_numeric[OF assms(1,2) _ _ assms(3)] by blast
    then show ?thesis by (simp add: validateVersion_def)
  qed
  have c3: "ds \<noteq> [] \<and> list_all isDecimalDigit ds \<longrightarrow>
      validateVersion (Some (ws @ sg @ ds @ r)) =
        Inr (toDouble ((if sg = ''-'' then - 1 else 1) * decimalValue ds))"
    using num by blast
  have c4: "ds \<noteq> [] \<and> list_all isDecimalDigit ds \<and> decimalValue ds \<le> 2 ^ 53 \<longrightarrow>
      validateVersion (Some (ws @ sg @ ds @ r)) =
        Inr (Finite ((if sg = ''-'' then - 1 else 1) * decimalValue ds))"
  proof
    assume a: "ds \<noteq> [] \<and> list_all isDecimalDigit ds \<and> decimalValue ds \<le> 2 ^ 53"
    then have "0 \<le> decimalValue ds" by (simp add: decimalValue_nonneg)
    with a have "\<bar>(if sg = ''-'' then - 1 else 1) * decimalValue ds\<bar> \<le> 2 ^ 53" by simp
    then have "toDouble ((if sg = ''-'' then - 1 else 1) * decimalValue ds) =
        Finite ((if sg = ''-'' then - 1 else 1) * decimalValue ds)"
      by (rule toDouble_exact)
    with num a show "validateVersion (Some (ws @ sg @ ds @ r)) =
        Inr (Finite ((if sg = ''-'' then - 1 else 1) * decimalValue ds))"
      by simp
  qed
  have c5: "ds \<noteq> [] \<and> list_all isDecimalDigit ds \<and> 2 ^ 1024 \<le> decimalValue ds \<longrightarrow>
      validateVersion (Some (ws @ sg @ ds @ r)) =
        Inr (if sg = ''-'' then NegInfinity else PosInfinity)"
  proof
    assume a: "ds \<noteq> [] \<and> list_all isDecimalDigit ds \<and> 2 ^ 1024 \<le> decimalValue ds"
    then have "toDouble (decimalValue ds) = PosInfinity"
      "toDouble (- decimalValue ds) = NegInfinity"
      by (simp_all only: toDouble_overflow)
    with num a show "validateVersion (Some (ws @ sg @ ds @ r)) =
        Inr (if sg = ''-'' then NegInfinity else PosInfinity)"
      by simp
  qed
  show ?thesis by (intro conjI c1 c2 c3 c4 c5)
qed

theorem validateVersion_guard_witness:
  "update rejectAll 7 testdaten neuesBuch None = (testdaten, Inl (VersionInvalid None)) \<and>
   update rejectAll 7 testdaten neuesBuch (Some '' -x'') =
     (testdaten, Inl (VersionInvalid (Some '' -x''))) \<and>
   update acceptAll 7 testdaten buchAlpha (Some ''abc'') =
     (testdaten, Inl (VersionInvalid (Some ''abc''))) \<and>
   validateVersion (Some '' -12x'') = Inr (Finite (- 12)) \<and>
   validateVersion (Some ''3'') = Inr (Finite 3) \<and>
   validateVersion (Some (''-1'' @ replicate 400 CHR ''0'')) = Inr NegInfinity"
proof -
  have ws: "list_all isStrWhiteSpaceChar '' ''" by (simp add: isStrWhiteSpaceChar_def)
  have ws0: "list_all isStrWhiteSpaceChar []" by simp
  have x: "''x'' = [] \<or> \<not> isDecimalDigit (hd ''x'')" by (simp add: isDecimalDigit_def)
  have abc: "''abc'' = [] \<or> \<not> isDecimalDigit (hd ''abc'')" by (simp add: isDecimalDigit_def)
  have e: "([]::string) = [] \<or> \<not> isDecimalDigit (hd [])" by simp
  have sgm: "''-'' \<in> {[], ''+'', ''-''}" and sg0: "[] \<in> {[], ''+'', ''-''}" by simp_all
  have nx: "''-'' = [] \<and> ''x'' \<noteq> [] \<longrightarrow>
      \<not> isStrWhiteSpaceChar (hd ''x'') \<and> hd ''x'' \<noteq> CHR ''+'' \<and> hd ''x'' \<noteq> CHR ''-''"
    by simp
  have nabc: "[] = ([]::string) \<and> ''abc'' \<noteq> [] \<longrightarrow>
      \<not> isStrWhiteSpaceChar (hd ''abc'') \<and> hd ''abc'' \<noteq> CHR ''+'' \<and> hd ''abc'' \<noteq> CHR ''-''"
    by (simp add: isStrWhiteSpaceChar_def)
  have d12: "''12'' \<noteq> [] \<and> list_all isDecimalDigit ''12'' \<and> decimalValue ''12'' \<le> 2 ^ 53"
    by (simp add: isDecimalDigit_def decimalValue_def digitValue_def)
  have d3: "''3'' \<noteq> [] \<and> list_all isDecimalDigit ''3'' \<and> decimalValue ''3'' \<le> 2 ^ 53"
    by (simp add: isDecimalDigit_def decimalValue_def digitValue_def)
  have v: "decimalValue ''12'' = 12" "decimalValue ''3'' = 3"
    by (simp_all add: decimalValue_def digitValue_def)
  let ?big = "''1'' @ replicate 400 CHR ''0''"
  have "(2::int) ^ 1024 \<le> 2 ^ 1200" by (rule power_increasing) simp_all
  also have "(2::int) ^ 1200 = 8 ^ 400" by (simp add: power_mult[of 2 3 400, simplified])
  also have "(8::int) ^ 400 \<le> 10 ^ 400" by (rule power_mono) simp_all
  also have "(10::int) ^ 400 = decimalValue ?big"
    by (simp only: decimalValue_zeros) (simp add: decimalValue_def digitValue_def)
  finally have dbig: "?big \<noteq> [] \<and> list_all isDecimalDigit ?big \<and> 2 ^ 1024 \<le> decimalValue ?big"
    by (simp add: list_all_iff isDecimalDigit_def)
  from validateVersion_guard[OF ws sgm x, of rejectAll 7 testdaten neuesBuch "''12''"] nx d12
  have r1: "update rejectAll 7 testdaten neuesBuch None = (testdaten, Inl (VersionInvalid None))"
    and r2: "update rejectAll 7 testdaten neuesBuch (Some ('' '' @ ''-'' @ ''x'')) =
      (testdaten, Inl (VersionInvalid (Some ('' '' @ ''-'' @ ''x''))))"
    and r4: "validateVersion (Some ('' '' @ ''-'' @ ''12'' @ ''x'')) =
      Inr (Finite ((if ''-'' = ''-'' then - 1 else 1) * decimalValue ''12''))"
    by blast+
  from validateVersion_guard[OF ws0 sg0 abc, of acceptAll 7 testdaten buchAlpha "''3''"] nabc
  have r3: "update acceptAll 7 testdaten buchAlpha (Some ([] @ [] @ ''abc'')) =
      (testdaten, Inl (VersionInvalid (Some ([] @ [] @ ''abc''))))"
    by blast
  from validateVersion_guard[OF ws0 sg0 e, of acceptAll 7 testdaten buchAlpha "''3''"] d3
  have r5: "validateVersion (Some ([] @ [] @ ''3'' @ [])) =
      Inr (Finite ((if [] = ''-'' then - 1 else 1) * decimalValue ''3''))"
    by blast
  from validateVersion_guard[OF ws0 sgm e, of acceptAll 7 testdaten buchAlpha ?big] dbig
  have r6: "validateVersion (Some ([] @ ''-'' @ ?big @ [])) =
      Inr (if ''-'' = ''-'' then NegInfinity else PosInfinity)"
    by blast
  show ?thesis using r1 r2 r3 r4 r5 r6 by (simp add: v)
qed

text \<open>
  The token \<open>-1\<close> is numeric, and the guard returns a negative number for it. The
  token \<open>12abc\<close> is not a numeral, and the guard returns 12 for it. The token
  \<open>9007199254740993\<close> writes an integer that is not a double, and the guard returns
  its neighbour.
\<close>

theorem validateVersion_negative_counterexample:
  "validateVersion (Some ''-1'') = Inr (Finite (- 1)) \<and> \<not> (0 \<le> (- 1 :: int)) \<and>
   validateVersion (Some ''12abc'') = Inr (Finite 12) \<and>
   validateVersion (Some ''9007199254740993'') = Inr (Finite 9007199254740992) \<and>
   (9007199254740992 :: int) \<noteq> 9007199254740993"
proof -
  have small: "toDouble (- 1) = Finite (- 1)" "toDouble 12 = Finite 12"
    by (simp_all add: toDouble_exact)
  have b: "bitLength 9007199254740993 = 54"
    using bitLength_eq[of 53 9007199254740993] by simp
  have "roundTiesToEven 9007199254740993 = Finite 9007199254740992"
    unfolding roundTiesToEven_def b by (simp add: Let_def)
  then have big: "toDouble 9007199254740993 = Finite 9007199254740992"
    by (simp add: toDouble_def)
  show ?thesis
    by (simp add: validateVersion_def parseInt_def isStrWhiteSpaceChar_def isDecimalDigit_def
        decimalValue_def digitValue_def small big)
qed

section \<open>Facts about the store\<close>

lemma store_findById_None_iff:
  "store_findById db i = None \<longleftrightarrow> (\<forall>d \<in> set db. uid d \<noteq> Some i)"
  by (auto simp: store_findById_def find_None_iff)

lemma store_findById_SomeD:
  "store_findById db i = Some d \<Longrightarrow> d \<in> set db \<and> uid d = Some i"
  by (auto simp: store_findById_def find_Some_iff)

text \<open>With distinct ids, the lookup by id returns the one document that carries the id.\<close>

lemma store_findById_the:
  "distinct (map uid db) \<Longrightarrow> d \<in> set db \<Longrightarrow> uid d = Some i \<Longrightarrow> store_findById db i = Some d"
proof (induction db)
  case Nil
  then show ?case by simp
next
  case (Cons x xs)
  show ?case
  proof (cases "uid x = Some i")
    case True
    with Cons.prems have "d = x" by (auto simp: image_iff)
    with True show ?thesis by (simp add: store_findById_def)
  next
    case False
    with Cons show ?thesis by (auto simp: store_findById_def)
  qed
qed

lemma store_findById_replaced:
  "store_findById db k \<noteq> None \<Longrightarrow> uid new = Some k \<Longrightarrow>
     store_findById (map (\<lambda>d. if uid d = Some k then new else d) db) k = Some new"
  by (induction db) (auto simp: store_findById_def)


lemma versionDb_deleteTimestamps: "versionDb (deleteTimestamps d) = versionDb d"
  by (simp add: versionDb_def deleteTimestamps_def)

section \<open>Facts about the checks of an update\<close>

lemma checkTitelExists_cases:
  "checkTitelExists db auto = None \<or>
   (\<exists>result \<in> set db. titel result = titel auto \<and>
      checkTitelExists db auto = Some (TitelExists (titel auto) (uid result)))"
  by (auto simp: checkTitelExists_def store_findOneByTitel_def find_Some_iff
      split: option.splits)

lemma checkIdAndVersion_cases:
  "checkIdAndVersion db i v = None \<or>
   checkIdAndVersion db i v = Some (BuchNotExists (Some i)) \<or>
   checkIdAndVersion db i v = Some (VersionOutdated i v)"
  by (simp add: checkIdAndVersion_def split: option.splits)

lemma checkIdAndVersion_other:
  "checkIdAndVersion db i v \<noteq> Some (VersionInvalid t)"
  "checkIdAndVersion db i v \<noteq> Some (TitelExists a b)"
  by (simp_all add: checkIdAndVersion_def split: option.splits)

text \<open>The title check lets a candidate through when only its own document has the title.\<close>

lemma validateUpdate_own_titel:
  assumes "\<forall>d \<in> set db. titel d = titel auto \<longrightarrow> uid d = uid auto"
    and "validateVersion versionStr = Inr v" and "validateBuch auto = None"
  shows "validateUpdate validateBuch db auto versionStr =
     (case uid auto of
        None \<Rightarrow> Some (BuchNotExists None)
      | Some i \<Rightarrow> checkIdAndVersion db i v)"
proof -
  have "checkTitelExists db auto = None \<or>
      conflictId (the (checkTitelExists db auto)) = uid auto"
    using checkTitelExists_cases[of db auto] assms(1) by auto
  then show ?thesis
    using assms(2,3) by (auto simp: validateUpdate_def Let_def)
qed

lemma validateUpdate_NoneD:
  assumes "validateUpdate validateBuch db auto versionStr = None"
  shows "\<exists>i v. uid auto = Some i \<and> validateVersion versionStr = Inr v \<and>
           checkIdAndVersion db i v = None"
  using assms
  by (auto simp: validateUpdate_def Let_def split: sum.splits option.splits if_splits)

text \<open>The write on a store that holds the document: the version read back is one more.\<close>

lemma update_write_existing:
  assumes "store_findById db i = Some old" and "uid auto = Some i"
  shows "snd (update_write db now auto) = Inr (versionDb old + 1) \<and>
         map_option versionDb (findById (fst (update_write db now auto)) i) =
           Some (versionDb old + 1)"
proof -
  let ?new = "auto\<lparr>uid := Some i, vsn := Some (versionDb old + 1),
                    createdAt := createdAt old, updatedAt := Some now\<rparr>"
  let ?db' = "map (\<lambda>d. if uid d = Some i then ?new else d) db"
  have w: "update_write db now auto = (?db', Inr (versionDb old + 1))"
    using assms by (simp add: update_write_def store_findByIdAndUpdate_def Let_def)
  have "store_findById ?db' i = Some ?new"
    using assms(1) by (intro store_findById_replaced) simp_all
  then have "map_option versionDb (findById ?db' i) = Some (versionDb old + 1)"
    by (simp add: findById_def versionDb_deleteTimestamps) (simp add: versionDb_def)
  with w show ?thesis by simp
qed

lemma update_write_missing:
  assumes "\<forall>x \<in> set db. uid x \<noteq> uid auto"
  shows "update_write db now auto = (db, Inl (BuchNotExists (uid auto)))"
proof (cases "uid auto")
  case None
  then show ?thesis by (simp add: update_write_def store_findByIdAndUpdate_def)
next
  case (Some i)
  with assms have "store_findById db i = None" by (simp add: store_findById_None_iff)
  with Some show ?thesis by (simp add: update_write_def store_findByIdAndUpdate_def)
qed

lemma update_write_cases:
  "snd (update_write db now auto) = Inl (BuchNotExists (uid auto)) \<or>
   (\<exists>n. snd (update_write db now auto) = Inr n)"
  by (auto simp: update_write_def store_findByIdAndUpdate_def Let_def split: option.splits)

section \<open>Evaluation of the example data\<close>

lemma testdaten_ok: "store_ok testdaten"
  by (simp add: store_ok_def testdaten_def buchAlpha_def buchBeta_def)

lemma tok0: "validateVersion (Some ''0'') = Inr (Finite 0)"
  by (simp add: validateVersion_def parseInt_def isStrWhiteSpaceChar_def isDecimalDigit_def
      decimalValue_def digitValue_def toDouble_exact)

lemma alpha_found:
  "store_findById testdaten ''00000000-0000-0000-0000-000000000001'' = Some buchAlpha"
  by (simp add: store_findById_def testdaten_def buchAlpha_def)

lemma alpha_version: "versionDb buchAlpha = 0"
  by (simp add: versionDb_def buchAlpha_def)

lemma alpha_check:
  "checkIdAndVersion testdaten ''00000000-0000-0000-0000-000000000001'' (Finite 0) = None"
  by (simp add: checkIdAndVersion_def alpha_found alpha_version)

lemma alpha_deleted:
  "fst (delete testdaten ''00000000-0000-0000-0000-000000000001'') = [buchBeta]"
  by (simp add: delete_def store_findByIdAndDelete_def alpha_found)
     (simp add: testdaten_def buchAlpha_def buchBeta_def)

text \<open>The candidate that changes the rating of \<open>buchAlpha\<close> and keeps its title.\<close>

lemma alpha5_uid:
  "uid (buchAlpha\<lparr>rating := Some 5\<rparr>) = Some ''00000000-0000-0000-0000-000000000001''"
  by (simp add: buchAlpha_def)

lemma alpha5_own:
  "\<forall>x \<in> set testdaten. titel x = titel (buchAlpha\<lparr>rating := Some 5\<rparr>) \<longrightarrow>
     uid x = uid (buchAlpha\<lparr>rating := Some 5\<rparr>)"
  by (simp add: testdaten_def buchAlpha_def buchBeta_def)

lemma alpha5_valid:
  "validateUpdate acceptAll testdaten (buchAlpha\<lparr>rating := Some 5\<rparr>) (Some ''0'') = None"
proof -
  have "acceptAll (buchAlpha\<lparr>rating := Some 5\<rparr>) = None" by (simp add: acceptAll_def)
  from validateUpdate_own_titel[where validateBuch = acceptAll, OF alpha5_own tok0 this]
  show ?thesis by (simp only: alpha5_uid option.case alpha_check)
qed

text \<open>
  C2. The currency check looks the document up by id. With no document of that id it
  returns \<open>BuchNotExists\<close> with the id; with a supplied version strictly below the
  stored one (\<^verbatim>\<open>__v ?? 0\<close>) it returns \<open>VersionOutdated\<close> with the id and the supplied
  version; with a supplied version equal to or above the stored one it returns nothing,
  and then (the earlier checks having passed) \<open>update\<close> goes on to the write. A
  supplied version that is infinite is above, or below, every stored one.
\<close>

theorem checkIdAndVersion_currency:
  "((\<forall>x \<in> set db. uid x \<noteq> Some i) \<longrightarrow>
      checkIdAndVersion db i n = Some (BuchNotExists (Some i))) \<and>
   (store_ok db \<and> d \<in> set db \<and> uid d = Some i \<and> v < versionDb d \<longrightarrow>
      checkIdAndVersion db i (Finite v) = Some (VersionOutdated i (Finite v))) \<and>
   (store_ok db \<and> d \<in> set db \<and> uid d = Some i \<and> versionDb d \<le> v \<longrightarrow>
      checkIdAndVersion db i (Finite v) = None) \<and>
   (store_ok db \<and> d \<in> set db \<and> uid d = Some i \<and> versionDb d \<le> v \<and>
    validateVersion versionStr = Inr (Finite v) \<and> validateBuch auto = None \<and>
    uid auto = Some i \<and>
    (\<forall>x \<in> set db. titel x = titel auto \<longrightarrow> uid x = Some i) \<longrightarrow>
      validateUpdate validateBuch db auto versionStr = None \<and>
      update validateBuch now db auto versionStr = update_write db now auto) \<and>
   (store_ok db \<and> d \<in> set db \<and> uid d = Some i \<longrightarrow>
      checkIdAndVersion db i PosInfinity = None \<and>
      checkIdAndVersion db i NegInfinity = Some (VersionOutdated i NegInfinity))"
proof -
  have found: "store_findById db i = Some d"
    if "store_ok db \<and> d \<in> set db \<and> uid d = Some i"
    using that by (simp add: store_ok_def store_findById_the)
  have c1: "(\<forall>x \<in> set db. uid x \<noteq> Some i) \<longrightarrow>
      checkIdAndVersion db i n = Some (BuchNotExists (Some i))"
    by (simp add: checkIdAndVersion_def store_findById_None_iff[symmetric])
  have c2: "store_ok db \<and> d \<in> set db \<and> uid d = Some i \<and> v < versionDb d \<longrightarrow>
      checkIdAndVersion db i (Finite v) = Some (VersionOutdated i (Finite v))"
    using found by (auto simp: checkIdAndVersion_def)
  have c3: "store_ok db \<and> d \<in> set db \<and> uid d = Some i \<and> versionDb d \<le> v \<longrightarrow>
      checkIdAndVersion db i (Finite v) = None"
    using found by (auto simp: checkIdAndVersion_def)
  have c4: "store_ok db \<and> d \<in> set db \<and> uid d = Some i \<and> versionDb d \<le> v \<and>
    validateVersion versionStr = Inr (Finite v) \<and> validateBuch auto = None \<and>
    uid auto = Some i \<and>
    (\<forall>x \<in> set db. titel x = titel auto \<longrightarrow> uid x = Some i) \<longrightarrow>
      validateUpdate validateBuch db auto versionStr = None \<and>
      update validateBuch now db auto versionStr = update_write db now auto"
  proof
    assume a: "store_ok db \<and> d \<in> set db \<and> uid d = Some i \<and> versionDb d \<le> v \<and>
      validateVersion versionStr = Inr (Finite v) \<and> validateBuch auto = None \<and>
      uid auto = Some i \<and>
      (\<forall>x \<in> set db. titel x = titel auto \<longrightarrow> uid x = Some i)"
    have own: "\<forall>x \<in> set db. titel x = titel auto \<longrightarrow> uid x = uid auto"
      using a by simp
    have "validateUpdate validateBuch db auto versionStr = checkIdAndVersion db i (Finite v)"
      using validateUpdate_own_titel[of db auto versionStr "Finite v" validateBuch] own a
      by simp
    also have "\<dots> = None" using c3 a by simp
    finally have n: "validateUpdate validateBuch db auto versionStr = None" .
    then show "validateUpdate validateBuch db auto versionStr = None \<and>
        update validateBuch now db auto versionStr = update_write db now auto"
      by (simp add: update_def update_interleaved_def)
  qed
  have c5: "store_ok db \<and> d \<in> set db \<and> uid d = Some i \<longrightarrow>
      checkIdAndVersion db i PosInfinity = None \<and>
      checkIdAndVersion db i NegInfinity = Some (VersionOutdated i NegInfinity)"
    using found by (auto simp: checkIdAndVersion_def)
  show ?thesis by (intro conjI c1 c2 c3 c4 c5)
qed

theorem checkIdAndVersion_currency_witness:
  "checkIdAndVersion testdaten ''00000000-0000-0000-0000-000000000009'' (Finite 0) =
     Some (BuchNotExists (Some ''00000000-0000-0000-0000-000000000009'')) \<and>
   checkIdAndVersion testdaten ''00000000-0000-0000-0000-000000000001'' (Finite (- 1)) =
     Some (VersionOutdated ''00000000-0000-0000-0000-000000000001'' (Finite (- 1))) \<and>
   checkIdAndVersion testdaten ''00000000-0000-0000-0000-000000000001'' (Finite 0) = None \<and>
   update acceptAll 7 testdaten (buchAlpha\<lparr>rating := Some 5\<rparr>) (Some ''0'') =
     update_write testdaten 7 (buchAlpha\<lparr>rating := Some 5\<rparr>) \<and>
   checkIdAndVersion testdaten ''00000000-0000-0000-0000-000000000001'' PosInfinity = None \<and>
   checkIdAndVersion testdaten ''00000000-0000-0000-0000-000000000001'' NegInfinity =
     Some (VersionOutdated ''00000000-0000-0000-0000-000000000001'' NegInfinity)"
proof -
  let ?i = "''00000000-0000-0000-0000-000000000001''"
  let ?j = "''00000000-0000-0000-0000-000000000009''"
  let ?a = "buchAlpha\<lparr>rating := Some 5\<rparr>"
  have none: "\<forall>x \<in> set testdaten. uid x \<noteq> Some ?j"
    by (simp add: testdaten_def buchAlpha_def buchBeta_def)
  have mem: "buchAlpha \<in> set testdaten" "uid buchAlpha = Some ?i" "versionDb buchAlpha = 0"
    by (simp_all add: testdaten_def buchAlpha_def versionDb_def)
  note tok = tok0
  have cand: "acceptAll ?a = None" "uid ?a = Some ?i"
    by (simp_all add: acceptAll_def buchAlpha_def)
  have own: "\<forall>x \<in> set testdaten. titel x = titel ?a \<longrightarrow> uid x = Some ?i"
    by (simp add: testdaten_def buchAlpha_def buchBeta_def)
  show ?thesis
    using checkIdAndVersion_currency[of testdaten ?j "Finite 0" buchAlpha 0 "Some ''0''"
        acceptAll ?a 7]
      checkIdAndVersion_currency[of testdaten ?i "Finite 0" buchAlpha "- 1" "Some ''0''"
        acceptAll ?a 7]
      checkIdAndVersion_currency[of testdaten ?i "Finite 0" buchAlpha 0 "Some ''0''"
        acceptAll ?a 7]
      none mem tok cand own testdaten_ok
    by simp
qed

text \<open>
  C3. An accepted update (the checks return nothing) of the document with stored
  version \<open>v\<close> returns \<open>v + 1\<close>, and that is the version a following \<open>findById\<close>
  reads. When the document is gone from the store by the time of the write (another
  request removed it after the checks), the update returns \<open>BuchNotExists\<close> with the
  candidate's id.
\<close>

theorem update_increments_version:
  assumes "store_ok db" and "validateUpdate validateBuch db auto versionStr = None"
  shows "(d \<in> set db \<and> uid d = uid auto \<longrightarrow>
      snd (update validateBuch now db auto versionStr) = Inr (versionDb d + 1) \<and>
      (\<exists>i. uid auto = Some i \<and>
        map_option versionDb (findById (fst (update validateBuch now db auto versionStr)) i) =
          Some (versionDb d + 1))) \<and>
    ((\<forall>x \<in> set (other db). uid x \<noteq> uid auto) \<longrightarrow>
      update_interleaved validateBuch now other db auto versionStr =
        (other db, Inl (BuchNotExists (uid auto))))"
proof -
  obtain i where i: "uid auto = Some i"
    using validateUpdate_NoneD[OF assms(2)] by blast
  have u: "update validateBuch now db auto versionStr = update_write db now auto"
    using assms(2) by (simp add: update_def update_interleaved_def)
  have c1: "d \<in> set db \<and> uid d = uid auto \<longrightarrow>
      snd (update validateBuch now db auto versionStr) = Inr (versionDb d + 1) \<and>
      (\<exists>i. uid auto = Some i \<and>
        map_option versionDb (findById (fst (update validateBuch now db auto versionStr)) i) =
          Some (versionDb d + 1))"
  proof
    assume a: "d \<in> set db \<and> uid d = uid auto"
    then have "store_findById db i = Some d"
      using assms(1) i by (simp add: store_ok_def store_findById_the)
    from update_write_existing[OF this i, of now] i
    show "snd (update validateBuch now db auto versionStr) = Inr (versionDb d + 1) \<and>
      (\<exists>i. uid auto = Some i \<and>
        map_option versionDb (findById (fst (update validateBuch now db auto versionStr)) i) =
          Some (versionDb d + 1))"
      unfolding u by simp
  qed
  have c2: "(\<forall>x \<in> set (other db). uid x \<noteq> uid auto) \<longrightarrow>
      update_interleaved validateBuch now other db auto versionStr =
        (other db, Inl (BuchNotExists (uid auto)))"
    using assms(2) by (simp add: update_interleaved_def update_write_missing)
  show ?thesis by (intro conjI c1 c2)
qed

theorem update_increments_version_witness:
  "store_ok testdaten \<and>
   validateUpdate acceptAll testdaten (buchAlpha\<lparr>rating := Some 5\<rparr>) (Some ''0'') = None \<and>
   snd (update acceptAll 7 testdaten (buchAlpha\<lparr>rating := Some 5\<rparr>) (Some ''0'')) = Inr 1 \<and>
   map_option versionDb
     (findById (fst (update acceptAll 7 testdaten (buchAlpha\<lparr>rating := Some 5\<rparr>) (Some ''0'')))
        ''00000000-0000-0000-0000-000000000001'') = Some 1 \<and>
   update_interleaved acceptAll 7 (\<lambda>s. fst (delete s ''00000000-0000-0000-0000-000000000001''))
       testdaten (buchAlpha\<lparr>rating := Some 5\<rparr>) (Some ''0'') =
     ([buchBeta], Inl (BuchNotExists (Some ''00000000-0000-0000-0000-000000000001'')))"
proof -
  let ?i = "''00000000-0000-0000-0000-000000000001''"
  let ?a = "buchAlpha\<lparr>rating := Some 5\<rparr>"
  let ?other = "\<lambda>s. fst (delete s ?i)"
  have mem: "buchAlpha \<in> set testdaten \<and> uid buchAlpha = uid ?a"
    by (simp add: testdaten_def)
  have v0: "versionDb buchAlpha + 1 = 1"
    by (simp add: alpha_version)
  have gone: "\<forall>x \<in> set (?other testdaten). uid x \<noteq> uid ?a"
    by (simp only: alpha_deleted alpha5_uid) (simp add: buchBeta_def)
  have t: "(buchAlpha \<in> set testdaten \<and> uid buchAlpha = uid ?a \<longrightarrow>
      snd (update acceptAll 7 testdaten ?a (Some ''0'')) = Inr (versionDb buchAlpha + 1) \<and>
      (\<exists>i. uid ?a = Some i \<and>
        map_option versionDb (findById (fst (update acceptAll 7 testdaten ?a (Some ''0''))) i) =
          Some (versionDb buchAlpha + 1))) \<and>
    ((\<forall>x \<in> set (?other testdaten). uid x \<noteq> uid ?a) \<longrightarrow>
      update_interleaved acceptAll 7 ?other testdaten ?a (Some ''0'') =
        (?other testdaten, Inl (BuchNotExists (uid ?a))))"
    by (rule update_increments_version[OF testdaten_ok alpha5_valid])
  from t mem gone have
    r1: "snd (update acceptAll 7 testdaten ?a (Some ''0'')) = Inr (versionDb buchAlpha + 1)" and
    r2: "\<exists>i. uid ?a = Some i \<and>
        map_option versionDb (findById (fst (update acceptAll 7 testdaten ?a (Some ''0''))) i) =
          Some (versionDb buchAlpha + 1)" and
    r3: "update_interleaved acceptAll 7 ?other testdaten ?a (Some ''0'') =
        (?other testdaten, Inl (BuchNotExists (uid ?a)))"
    by blast+
  from r2 have r2': "map_option versionDb
      (findById (fst (update acceptAll 7 testdaten ?a (Some ''0''))) ?i) = Some 1"
    by (simp only: alpha5_uid v0) simp
  show ?thesis
    using testdaten_ok alpha5_valid r1 r2' r3
    by (simp only: v0 alpha_deleted alpha5_uid)
qed

text \<open>
  C5. When every document that has the candidate's title has the candidate's id, the
  checks of an update report no title conflict, and neither does \<open>update\<close>.
\<close>

theorem update_no_self_conflict:
  assumes "\<forall>d \<in> set db. titel d = titel auto \<longrightarrow> uid d = uid auto"
  shows "validateUpdate validateBuch db auto versionStr \<noteq> Some (TitelExists t c) \<and>
         snd (update validateBuch now db auto versionStr) \<noteq> Inl (TitelExists t c)"
proof -
  have v: "validateUpdate validateBuch db auto versionStr \<noteq> Some (TitelExists t c)"
  proof (cases "validateVersion versionStr")
    case (Inl err)
    then have "validateUpdate validateBuch db auto versionStr = Some err"
      by (rule validateUpdate_VersionInvalid)
    moreover have "err = VersionInvalid versionStr"
      using Inl by (auto simp: validateVersion_def split: option.splits)
    ultimately show ?thesis by simp
  next
    case (Inr v)
    show ?thesis
    proof (cases "validateBuch auto")
      case (Some msg)
      with Inr show ?thesis by (simp add: validateUpdate_def)
    next
      case None
      show ?thesis
        using validateUpdate_own_titel[of db auto versionStr v validateBuch] assms Inr None
        by (simp add: checkIdAndVersion_other split: option.splits)
    qed
  qed
  have "snd (update validateBuch now db auto versionStr) \<noteq> Inl (TitelExists t c)"
  proof (cases "validateUpdate validateBuch db auto versionStr")
    case None
    then have "update validateBuch now db auto versionStr = update_write db now auto"
      by (simp add: update_def update_interleaved_def)
    then show ?thesis using update_write_cases[of db now auto] by auto
  next
    case (Some err)
    then show ?thesis using v by (simp add: update_def update_interleaved_def)
  qed
  with v show ?thesis by simp
qed

theorem update_no_self_conflict_witness:
  "checkTitelExists testdaten (buchAlpha\<lparr>rating := Some 5\<rparr>) =
     Some (TitelExists ''Alpha'' (Some ''00000000-0000-0000-0000-000000000001'')) \<and>
   validateUpdate acceptAll testdaten (buchAlpha\<lparr>rating := Some 5\<rparr>) (Some ''0'') \<noteq>
     Some (TitelExists ''Alpha'' (Some ''00000000-0000-0000-0000-000000000001'')) \<and>
   snd (update acceptAll 7 testdaten (buchAlpha\<lparr>rating := Some 5\<rparr>) (Some ''0'')) \<noteq>
     Inl (TitelExists ''Alpha'' (Some ''00000000-0000-0000-0000-000000000001''))"
proof -
  let ?a = "buchAlpha\<lparr>rating := Some 5\<rparr>"
  note own = alpha5_own
  have chk: "checkTitelExists testdaten ?a =
      Some (TitelExists ''Alpha'' (Some ''00000000-0000-0000-0000-000000000001''))"
    by (simp add: checkTitelExists_def store_findOneByTitel_def testdaten_def buchAlpha_def)
  show ?thesis
    using update_no_self_conflict[OF own, of acceptAll "Some ''0''" "''Alpha''"
        "Some ''00000000-0000-0000-0000-000000000001''" 7] chk
    by simp
qed



section \<open>Facts about create, delete and the read path\<close>

lemma sendmail_returns: "snd (sendmail env auto) = Returns ()"
  by (simp add: sendmail_def Let_def split: outcome.splits)

lemma create_rejected:
  "validateCreate validateBuch db auto = Some err \<Longrightarrow>
     create validateBuch env db newId now auto = (db, [], Returns (Inl err))"
  by (simp add: create_def)

lemma create_accepted:
  assumes "validateCreate validateBuch db auto = None"
  shows "create validateBuch env db newId now auto =
     (db @ [auto\<lparr>uid := Some newId, vsn := Some 0,
                  createdAt := Some now, updatedAt := Some now\<rparr>],
      fst (sendmail env auto), Returns (Inr newId))"
proof -
  obtain logged where s: "sendmail env auto = (logged, Returns ())"
    using sendmail_returns[of env auto] by (cases "sendmail env auto") auto
  show ?thesis
    using assms by (simp add: create_def store_save_def Let_def s)
qed

lemma deleteTimestamps_restore:
  "(deleteTimestamps d)\<lparr>createdAt := createdAt d, updatedAt := updatedAt d\<rparr> = d"
  "createdAt (deleteTimestamps d) = None" "updatedAt (deleteTimestamps d) = None"
  by (simp_all add: deleteTimestamps_def)

lemma find_query_from_store:
  assumes "find_query engine db query = Returns rs" and "r \<in> set rs"
  shows "\<exists>d \<in> set db. r = deleteTimestamps d"
proof -
  have "\<exists>xs. set xs \<subseteq> set db \<and> rs = map deleteTimestamps xs"
  proof (cases "query = None \<or>
         (q_titel (the query) = None \<and> q_javascript (the query) = None \<and>
          q_typescript (the query) = None \<and> q_rest (the query) = [])")
    case True
    then have "rs = map deleteTimestamps (sort_key titel db)"
      using assms(1) by (simp add: find_query_def)
    then show ?thesis by (intro exI[of _ "sort_key titel db"]) simp
  next
    case False
    then show ?thesis
      using assms(1)
      by (simp add: find_query_def Let_def split: option.splits qvalue.splits if_splits)
         (metis filter_is_subset)+
  qed
  with assms(2) show ?thesis by fastforce
qed

section \<open>Evaluation of the example data, continued\<close>

lemma neuesBuch_free: "validateCreate acceptAll testdaten neuesBuch = None"
  by (simp add: validateCreate_def acceptAll_def store_existsTitel_def store_existsIsbn_def
      testdaten_def neuesBuch_def buchAlpha_def buchBeta_def)

lemma testdaten_sorted: "sort_key titel testdaten = [buchAlpha, buchBeta]"
  by (simp add: testdaten_def buchAlpha_def buchBeta_def)

text \<open>
  C4. \<open>create\<close> checks in the order validation, title, ISBN, and returns the first
  failure: \<open>BuchInvalid\<close> with the violations; else \<open>TitelExists\<close> with the title when
  a document has the same title; else \<open>IsbnExists\<close> with the ISBN when a document has
  the same ISBN. On create neither error carries the id of the conflicting document.
  Otherwise the candidate is appended to the store with the server's id, version 0 and
  the timestamps, and the id is returned. A failed check leaves the store unchanged.
\<close>

theorem create_check_order:
  "(validateBuch auto = Some msg \<longrightarrow>
      create validateBuch env db newId now auto = (db, [], Returns (Inl (BuchInvalid msg)))) \<and>
   (validateBuch auto = None \<and> (\<exists>d \<in> set db. titel d = titel auto) \<longrightarrow>
      create validateBuch env db newId now auto =
        (db, [], Returns (Inl (TitelExists (titel auto) None)))) \<and>
   (validateBuch auto = None \<and> (\<forall>d \<in> set db. titel d \<noteq> titel auto) \<and>
    (\<exists>d \<in> set db. isbn d = isbn auto) \<longrightarrow>
      create validateBuch env db newId now auto =
        (db, [], Returns (Inl (IsbnExists (isbn auto) None)))) \<and>
   (validateBuch auto = None \<and> (\<forall>d \<in> set db. titel d \<noteq> titel auto) \<and>
    (\<forall>d \<in> set db. isbn d \<noteq> isbn auto) \<longrightarrow>
      fst (create validateBuch env db newId now auto) =
        db @ [auto\<lparr>uid := Some newId, vsn := Some 0,
                     createdAt := Some now, updatedAt := Some now\<rparr>] \<and>
      snd (snd (create validateBuch env db newId now auto)) = Returns (Inr newId))"
proof -
  have c1: "validateBuch auto = Some msg \<longrightarrow>
      create validateBuch env db newId now auto = (db, [], Returns (Inl (BuchInvalid msg)))"
    by (simp add: create_rejected validateCreate_def)
  have c2: "validateBuch auto = None \<and> (\<exists>d \<in> set db. titel d = titel auto) \<longrightarrow>
      create validateBuch env db newId now auto =
        (db, [], Returns (Inl (TitelExists (titel auto) None)))"
    by (auto simp: create_rejected validateCreate_def store_existsTitel_def list_ex_iff)
  have c3: "validateBuch auto = None \<and> (\<forall>d \<in> set db. titel d \<noteq> titel auto) \<and>
    (\<exists>d \<in> set db. isbn d = isbn auto) \<longrightarrow>
      create validateBuch env db newId now auto =
        (db, [], Returns (Inl (IsbnExists (isbn auto) None)))"
    by (auto simp: create_rejected validateCreate_def store_existsTitel_def
        store_existsIsbn_def list_ex_iff)
  have c4: "validateBuch auto = None \<and> (\<forall>d \<in> set db. titel d \<noteq> titel auto) \<and>
    (\<forall>d \<in> set db. isbn d \<noteq> isbn auto) \<longrightarrow>
      fst (create validateBuch env db newId now auto) =
        db @ [auto\<lparr>uid := Some newId, vsn := Some 0,
                     createdAt := Some now, updatedAt := Some now\<rparr>] \<and>
      snd (snd (create validateBuch env db newId now auto)) = Returns (Inr newId)"
  proof
    assume a: "validateBuch auto = None \<and> (\<forall>d \<in> set db. titel d \<noteq> titel auto) \<and>
      (\<forall>d \<in> set db. isbn d \<noteq> isbn auto)"
    then have "validateCreate validateBuch db auto = None"
      by (auto simp: validateCreate_def store_existsTitel_def store_existsIsbn_def list_ex_iff)
    from create_accepted[OF this, of env newId now]
    show "fst (create validateBuch env db newId now auto) =
        db @ [auto\<lparr>uid := Some newId, vsn := Some 0,
                     createdAt := Some now, updatedAt := Some now\<rparr>] \<and>
      snd (snd (create validateBuch env db newId now auto)) = Returns (Inr newId)"
      by simp
  qed
  show ?thesis by (intro conjI c1 c2 c3 c4)
qed

theorem create_check_order_witness:
  "create rejectAll mailSkip testdaten ''00000000-0000-0000-0000-000000000099'' 7
     (neuesBuch\<lparr>titel := ''Alpha''\<rparr>) =
     (testdaten, [], Returns (Inl (BuchInvalid
        [(''titel'', ''Ein Buchtitel muss mit einem Buchstaben beginnen.'')]))) \<and>
   create acceptAll mailSkip testdaten ''00000000-0000-0000-0000-000000000099'' 7
     (neuesBuch\<lparr>titel := ''Alpha'', isbn := ''978-3827315526''\<rparr>) =
     (testdaten, [], Returns (Inl (TitelExists ''Alpha'' None))) \<and>
   create acceptAll mailSkip testdaten ''00000000-0000-0000-0000-000000000099'' 7
     (neuesBuch\<lparr>isbn := ''978-3827315526''\<rparr>) =
     (testdaten, [], Returns (Inl (IsbnExists ''978-3827315526'' None))) \<and>
   fst (create acceptAll mailSkip testdaten ''00000000-0000-0000-0000-000000000099'' 7 neuesBuch) =
     testdaten @ [neuesBuch\<lparr>uid := Some ''00000000-0000-0000-0000-000000000099'',
        vsn := Some 0, createdAt := Some 7, updatedAt := Some 7\<rparr>] \<and>
   snd (snd (create acceptAll mailSkip testdaten ''00000000-0000-0000-0000-000000000099'' 7
     neuesBuch)) = Returns (Inr ''00000000-0000-0000-0000-000000000099'')"
proof -
  let ?n = "''00000000-0000-0000-0000-000000000099''"
  let ?a = "neuesBuch\<lparr>titel := ''Alpha''\<rparr>"
  let ?b = "neuesBuch\<lparr>titel := ''Alpha'', isbn := ''978-3827315526''\<rparr>"
  let ?c = "neuesBuch\<lparr>isbn := ''978-3827315526''\<rparr>"
  have h1: "rejectAll ?a =
      Some [(''titel'', ''Ein Buchtitel muss mit einem Buchstaben beginnen.'')]"
    by (simp add: rejectAll_def)
  have h2: "acceptAll ?b = None \<and> (\<exists>d \<in> set testdaten. titel d = titel ?b)"
    by (simp add: acceptAll_def testdaten_def buchAlpha_def)
  have t2: "titel ?b = ''Alpha''" by simp
  have h3: "acceptAll ?c = None \<and> (\<forall>d \<in> set testdaten. titel d \<noteq> titel ?c) \<and>
      (\<exists>d \<in> set testdaten. isbn d = isbn ?c)"
    by (simp add: acceptAll_def testdaten_def buchAlpha_def buchBeta_def neuesBuch_def)
  have t3: "isbn ?c = ''978-3827315526''" by simp
  have h4: "acceptAll neuesBuch = None \<and> (\<forall>d \<in> set testdaten. titel d \<noteq> titel neuesBuch) \<and>
      (\<forall>d \<in> set testdaten. isbn d \<noteq> isbn neuesBuch)"
    by (simp add: acceptAll_def testdaten_def buchAlpha_def buchBeta_def neuesBuch_def)
  from create_check_order[of rejectAll ?a _ mailSkip testdaten ?n 7] h1
  have r1: "create rejectAll mailSkip testdaten ?n 7 ?a = (testdaten, [], Returns (Inl (BuchInvalid
        [(''titel'', ''Ein Buchtitel muss mit einem Buchstaben beginnen.'')])))"
    by blast
  from create_check_order[of acceptAll ?b "[]" mailSkip testdaten ?n 7] h2
  have r2: "create acceptAll mailSkip testdaten ?n 7 ?b =
      (testdaten, [], Returns (Inl (TitelExists (titel ?b) None)))"
    by blast
  from create_check_order[of acceptAll ?c "[]" mailSkip testdaten ?n 7] h3
  have r3: "create acceptAll mailSkip testdaten ?n 7 ?c =
      (testdaten, [], Returns (Inl (IsbnExists (isbn ?c) None)))"
    by blast
  from create_check_order[of acceptAll neuesBuch "[]" mailSkip testdaten ?n 7] h4
  have r4: "fst (create acceptAll mailSkip testdaten ?n 7 neuesBuch) =
      testdaten @ [neuesBuch\<lparr>uid := Some ?n, vsn := Some 0,
        createdAt := Some 7, updatedAt := Some 7\<rparr>] \<and>
      snd (snd (create acceptAll mailSkip testdaten ?n 7 neuesBuch)) = Returns (Inr ?n)"
    by blast
  show ?thesis using r1 r2 r3 r4 by (simp only: t2 t3) 
qed

text \<open>
  The document \<open>buchAlpha\<close> has the title of the first candidate and \<open>buchBeta\<close> the
  ISBN of the second; the errors of \<open>create\<close> do not name them.
\<close>

theorem create_conflict_id_counterexample:
  "snd (snd (create acceptAll mailSkip testdaten ''00000000-0000-0000-0000-000000000099'' 7
      (neuesBuch\<lparr>titel := ''Alpha''\<rparr>))) = Returns (Inl (TitelExists ''Alpha'' None)) \<and>
   store_findOneByTitel testdaten ''Alpha'' = Some buchAlpha \<and>
   TitelExists ''Alpha'' None \<noteq> TitelExists ''Alpha'' (uid buchAlpha) \<and>
   snd (snd (create acceptAll mailSkip testdaten ''00000000-0000-0000-0000-000000000099'' 7
      (neuesBuch\<lparr>isbn := ''978-3827315526''\<rparr>))) =
     Returns (Inl (IsbnExists ''978-3827315526'' None)) \<and>
   IsbnExists ''978-3827315526'' None \<noteq> IsbnExists ''978-3827315526'' (uid buchBeta)"
proof -
  have t: "store_existsTitel testdaten ''Alpha''" "\<not> store_existsTitel testdaten ''Neu''"
    "store_existsIsbn testdaten ''978-3827315526''"
    by (simp_all add: store_existsTitel_def store_existsIsbn_def testdaten_def buchAlpha_def
        buchBeta_def)
  have f: "store_findOneByTitel testdaten ''Alpha'' = Some buchAlpha"
    by (simp add: store_findOneByTitel_def testdaten_def buchAlpha_def)
  have n: "titel neuesBuch = ''Neu''" by (simp add: neuesBuch_def)
  have u: "uid buchAlpha \<noteq> None" "uid buchBeta \<noteq> None"
    by (simp_all add: buchAlpha_def buchBeta_def)
  show ?thesis
    using t f n u by (auto simp: create_def validateCreate_def acceptAll_def)
qed

text \<open>
  C6. \<open>delete\<close> returns true exactly when the store held a document with the id, and
  afterwards the store holds the other documents and none with that id; with no such
  document it returns false and leaves the store as it is. Deleting again returns
  false. The result is a plain value: there is no error for a missing id.
\<close>

theorem delete_reports_removal:
  "snd (delete db i) = (\<exists>d \<in> set db. uid d = Some i) \<and>
   fst (delete db i) = filter (\<lambda>x. uid x \<noteq> Some i) db \<and>
   ((\<forall>d \<in> set db. uid d \<noteq> Some i) \<longrightarrow> delete db i = (db, False)) \<and>
   findById (fst (delete db i)) i = None \<and>
   delete (fst (delete db i)) i = (fst (delete db i), False)"
proof -
  have none: "delete s i = (s, False)" if "\<forall>d \<in> set s. uid d \<noteq> Some i" for s
    using that
    by (simp add: delete_def store_findByIdAndDelete_def store_findById_None_iff[symmetric])
  have c1: "snd (delete db i) = (\<exists>d \<in> set db. uid d = Some i)"
    using store_findById_None_iff[of db i]
    by (auto simp: delete_def store_findByIdAndDelete_def split: option.splits)
  have c2: "fst (delete db i) = filter (\<lambda>x. uid x \<noteq> Some i) db"
  proof (cases "store_findById db i")
    case None
    then have "\<forall>d \<in> set db. uid d \<noteq> Some i" by (simp add: store_findById_None_iff)
    then have "filter (\<lambda>x. uid x \<noteq> Some i) db = db" by (simp add: filter_id_conv)
    with None show ?thesis by (simp add: delete_def store_findByIdAndDelete_def)
  next
    case (Some d)
    then show ?thesis by (simp add: delete_def store_findByIdAndDelete_def)
  qed
  have gone: "\<forall>d \<in> set (fst (delete db i)). uid d \<noteq> Some i"
    by (simp add: c2)
  have c4: "findById (fst (delete db i)) i = None"
    using gone by (simp add: findById_def store_findById_None_iff[symmetric])
  show ?thesis
    using c1 c2 none[of db] c4 none[OF gone] by blast
qed

theorem delete_reports_removal_witness:
  "delete testdaten ''00000000-0000-0000-0000-000000000001'' = ([buchBeta], True) \<and>
   delete [buchBeta] ''00000000-0000-0000-0000-000000000001'' = ([buchBeta], False) \<and>
   findById [buchBeta] ''00000000-0000-0000-0000-000000000001'' = None"
proof -
  let ?i = "''00000000-0000-0000-0000-000000000001''"
  have ex: "\<exists>d \<in> set testdaten. uid d = Some ?i"
    by (simp add: testdaten_def buchAlpha_def)
  have nb: "\<forall>d \<in> set [buchBeta]. uid d \<noteq> Some ?i"
    by (simp add: buchBeta_def)
  have s: "snd (delete testdaten ?i) = True"
    using delete_reports_removal[of testdaten ?i] ex by blast
  have d: "delete testdaten ?i = ([buchBeta], True)"
    using s alpha_deleted by (simp add: prod_eq_iff)
  have "delete [buchBeta] ?i = ([buchBeta], False)"
    using delete_reports_removal[of "[buchBeta]" ?i] nb by blast
  moreover have "findById (fst (delete testdaten ?i)) ?i = None"
    using delete_reports_removal[of testdaten ?i] by blast
  ultimately show ?thesis using d by simp
qed

text \<open>
  C7. A record returned by \<open>findById\<close> or by \<open>find\<close> has neither \<open>createdAt\<close> nor
  \<open>updatedAt\<close>, and it is a stored document in every other field: putting the
  document's two timestamps back gives the document.
\<close>

theorem no_timestamps_returned:
  "(findById db i = Some r \<longrightarrow>
      createdAt r = None \<and> updatedAt r = None \<and>
      (\<exists>d \<in> set db. uid d = Some i \<and>
         r\<lparr>createdAt := createdAt d, updatedAt := updatedAt d\<rparr> = d)) \<and>
   (find_query engine db query = Returns rs \<and> r' \<in> set rs \<longrightarrow>
      createdAt r' = None \<and> updatedAt r' = None \<and>
      (\<exists>d \<in> set db. r'\<lparr>createdAt := createdAt d, updatedAt := updatedAt d\<rparr> = d))"
proof -
  have c1: "findById db i = Some r \<longrightarrow>
      createdAt r = None \<and> updatedAt r = None \<and>
      (\<exists>d \<in> set db. uid d = Some i \<and>
         r\<lparr>createdAt := createdAt d, updatedAt := updatedAt d\<rparr> = d)"
  proof
    assume "findById db i = Some r"
    then obtain d where d: "store_findById db i = Some d" "r = deleteTimestamps d"
      by (auto simp: findById_def split: option.splits)
    from store_findById_SomeD[OF d(1)] d(2)
    show "createdAt r = None \<and> updatedAt r = None \<and>
      (\<exists>d \<in> set db. uid d = Some i \<and>
         r\<lparr>createdAt := createdAt d, updatedAt := updatedAt d\<rparr> = d)"
      by (auto simp: deleteTimestamps_restore)
  qed
  have c2: "find_query engine db query = Returns rs \<and> r' \<in> set rs \<longrightarrow>
      createdAt r' = None \<and> updatedAt r' = None \<and>
      (\<exists>d \<in> set db. r'\<lparr>createdAt := createdAt d, updatedAt := updatedAt d\<rparr> = d)"
  proof
    assume "find_query engine db query = Returns rs \<and> r' \<in> set rs"
    then obtain d where "d \<in> set db" "r' = deleteTimestamps d"
      using find_query_from_store[of engine db query rs r'] by blast
    then show "createdAt r' = None \<and> updatedAt r' = None \<and>
      (\<exists>d \<in> set db. r'\<lparr>createdAt := createdAt d, updatedAt := updatedAt d\<rparr> = d)"
      by (intro conjI bexI[of _ d]) (simp_all add: deleteTimestamps_restore)
  qed
  show ?thesis by (intro conjI c1 c2)
qed

theorem no_timestamps_returned_witness:
  "findById testdaten ''00000000-0000-0000-0000-000000000001'' =
     Some (buchAlpha\<lparr>createdAt := None, updatedAt := None\<rparr>) \<and>
   find_query literalEngine testdaten None =
     Returns [buchAlpha\<lparr>createdAt := None, updatedAt := None\<rparr>,
              buchBeta\<lparr>createdAt := None, updatedAt := None\<rparr>] \<and>
   createdAt (buchAlpha\<lparr>createdAt := None, updatedAt := None\<rparr>) = None \<and>
   updatedAt (buchAlpha\<lparr>createdAt := None, updatedAt := None\<rparr>) = None \<and>
   createdAt (buchBeta\<lparr>createdAt := None, updatedAt := None\<rparr>) = None \<and>
   updatedAt (buchBeta\<lparr>createdAt := None, updatedAt := None\<rparr>) = None"
proof -
  let ?i = "''00000000-0000-0000-0000-000000000001''"
  let ?ra = "buchAlpha\<lparr>createdAt := None, updatedAt := None\<rparr>"
  let ?rb = "buchBeta\<lparr>createdAt := None, updatedAt := None\<rparr>"
  have f: "findById testdaten ?i = Some ?ra"
    by (simp add: findById_def alpha_found deleteTimestamps_def)
  have q: "find_query literalEngine testdaten None = Returns [?ra, ?rb]"
    by (simp add: find_query_def testdaten_sorted deleteTimestamps_def)
  have m: "?rb \<in> set [?ra, ?rb]" by simp
  from no_timestamps_returned[of testdaten ?i ?ra literalEngine None "[?ra, ?rb]" ?rb] f q m
  have "createdAt ?ra = None \<and> updatedAt ?ra = None" "createdAt ?rb = None \<and> updatedAt ?rb = None"
    by blast+
  with f q show ?thesis by simp
qed

text \<open>
  C8. When the checks of \<open>create\<close> pass, the result is the new id and the store gets the
  new document, whatever the mail configuration is and whether sending the mail works
  or fails: two runs that differ only in that agree on store and result. A failure of
  the mail is logged and nothing else.
\<close>

theorem create_survives_mail_failure:
  assumes "validateCreate validateBuch db auto = None"
  shows "snd (snd (create validateBuch env db newId now auto)) = Returns (Inr newId) \<and>
    fst (create validateBuch env db newId now auto) =
      fst (create validateBuch env' db newId now auto) \<and>
    snd (snd (create validateBuch env db newId now auto)) =
      snd (snd (create validateBuch env' db newId now auto)) \<and>
    (cloud env = None \<and> mailHost env \<noteq> ''skip'' \<and> (\<forall>data. sendMail env data = Throws err) \<longrightarrow>
      fst (snd (create validateBuch env db newId now auto)) =
        [LogError ''BuchService.create(): Fehler beim Verschicken der Email'' err])"
proof -
  have "cloud env = None \<and> mailHost env \<noteq> ''skip'' \<and> (\<forall>data. sendMail env data = Throws err) \<longrightarrow>
      fst (sendmail env auto) =
        [LogError ''BuchService.create(): Fehler beim Verschicken der Email'' err]"
    by (simp add: sendmail_def Let_def)
  then show ?thesis
    by (simp add: create_accepted[OF assms])
qed

theorem create_survives_mail_failure_witness:
  "validateCreate acceptAll testdaten neuesBuch = None \<and>
   snd (snd (create acceptAll mailRefused testdaten ''00000000-0000-0000-0000-000000000099'' 7
     neuesBuch)) = Returns (Inr ''00000000-0000-0000-0000-000000000099'') \<and>
   fst (create acceptAll mailRefused testdaten ''00000000-0000-0000-0000-000000000099'' 7
     neuesBuch) =
   fst (create acceptAll mailSkip testdaten ''00000000-0000-0000-0000-000000000099'' 7
     neuesBuch) \<and>
   fst (snd (create acceptAll mailRefused testdaten ''00000000-0000-0000-0000-000000000099'' 7
     neuesBuch)) =
     [LogError ''BuchService.create(): Fehler beim Verschicken der Email'' ''ECONNREFUSED'']"
proof -
  have h: "cloud mailRefused = None \<and> mailHost mailRefused \<noteq> ''skip'' \<and>
      (\<forall>data. sendMail mailRefused data = Throws ''ECONNREFUSED'')"
    by (simp add: mailRefused_def)
  show ?thesis
    using create_survives_mail_failure[OF neuesBuch_free, of mailRefused
        "''00000000-0000-0000-0000-000000000099''" 7 mailSkip "''ECONNREFUSED''"]
      neuesBuch_free h
    by blast
qed

section \<open>Facts about the search by title\<close>











end
